theory Spec2Isabelle
  imports Complex_Main "HOL-Library.Multiset" "HOL-Library.List_Lexorder"
begin

section \<open>Data model (types.ts)\<close>

text \<open>
  A JavaScript \<^verbatim>\<open>number\<close> is modelled as an exact rational. The program only adds,
  subtracts and compares numbers, so every value it computes from decimal inputs is again
  a decimal; floating-point rounding, \<^verbatim>\<open>NaN\<close> and the infinities are outside the
  model. The field \<^verbatim>\<open>id\<close> is called \<open>item_id\<close> because \<open>id\<close> is the identity
  function of HOL.
\<close>

type_synonym number = rat

record InvoiceItem =
  item_id :: string
  description :: string
  vendor :: string
  inStock :: number
  par :: number
  order :: number
  price :: number

section \<open>Normalization of extracted rows (services/geminiService.ts)\<close>

text \<open>
  One element of the \<^verbatim>\<open>items\<close> list of the model response, with the properties that
  \<^verbatim>\<open>INVOICE_SCHEMA\<close> declares: a string and four numbers, each of which may be
  missing (\<open>None\<close> is JavaScript's \<^verbatim>\<open>undefined\<close>).
\<close>

record raw_item =
  raw_description :: "string option"
  column1_inStock :: "number option"
  column2_par :: "number option"
  column3_order :: "number option"
  column4_price :: "number option"

text \<open>
  \<^verbatim>\<open>Number(x) || 0\<close>: \<^verbatim>\<open>Number(undefined)\<close> is \<^verbatim>\<open>NaN\<close>, which is falsy, and so
  is the number zero.
\<close>

definition Number_or_0 :: "number option \<Rightarrow> number" where
  "Number_or_0 x = (case x of None \<Rightarrow> 0 | Some n \<Rightarrow> (if n \<noteq> 0 then n else 0))"

text \<open>\<^verbatim>\<open>s || d\<close> on an optional string: \<^verbatim>\<open>undefined\<close> and the empty string are falsy.\<close>

definition string_or :: "string option \<Rightarrow> string \<Rightarrow> string" where
  "string_or s d = (case s of None \<Rightarrow> d | Some t \<Rightarrow> (if t \<noteq> [] then t else d))"

text \<open>
  The callback of \<^verbatim>\<open>itemsList.map\<close>. The identifier built from \<^verbatim>\<open>Date.now()\<close> and
  \<^verbatim>\<open>Math.random()\<close> is an input of the model (\<open>fresh_id\<close>).
\<close>

definition map_item :: "string \<Rightarrow> string \<Rightarrow> raw_item \<Rightarrow> InvoiceItem" where
  "map_item vendorName fresh_id item =
     (let inStock' = Number_or_0 (column1_inStock item);
          extractedOrder = Number_or_0 (column3_order item);
          par0 = Number_or_0 (column2_par item);
          price' = Number_or_0 (column4_price item);
          par' = (if par0 = 0
                  then (if extractedOrder > 0 then inStock' + extractedOrder
                        else (if inStock' > 0 then inStock' + 5 else 10))
                  else par0);
          finalOrder = (if extractedOrder = 0 \<and> par' > 0
                        then max 0 (par' - inStock')
                        else extractedOrder);
          finalDescription = string_or (raw_description item) ''Unknown Item''
      in \<lparr>item_id = fresh_id,
          description = finalDescription,
          vendor = vendorName,
          inStock = inStock',
          par = par',
          order = finalOrder,
          price = price'\<rparr>)"

text \<open>The row of the end-to-end scenario, and rows with a negative handwritten par.\<close>

definition rice_row :: raw_item where
  "rice_row = \<lparr>raw_description = Some ''Rice'', column1_inStock = Some 3,
     column2_par = Some 0, column3_order = Some 0, column4_price = None\<rparr>"

definition negative_par_row :: raw_item where
  "negative_par_row = \<lparr>raw_description = Some ''Rice'', column1_inStock = Some 3,
     column2_par = Some (- 1), column3_order = Some 2, column4_price = None\<rparr>"

definition negative_stock_row :: raw_item where
  "negative_stock_row = \<lparr>raw_description = Some ''Rice'', column1_inStock = Some (- 3),
     column2_par = Some (- 1), column3_order = Some 0, column4_price = None\<rparr>"

definition explicit_order_row :: raw_item where
  "explicit_order_row = \<lparr>raw_description = Some ''Rice'', column1_inStock = Some 2,
     column2_par = Some 10, column3_order = Some 3, column4_price = Some (5 / 2)\<rparr>"

section \<open>Review State: editing a row (App.tsx, updateItem)\<close>

text \<open>The keys of \<^verbatim>\<open>InvoiceItem\<close>.\<close>

datatype field =
  Field_id | Field_description | Field_vendor | Field_inStock | Field_par | Field_order
  | Field_price

text \<open>
  The arguments \<^verbatim>\<open>field\<close> and \<^verbatim>\<open>value\<close> of one call, typed as \<^verbatim>\<open>InvoiceItem\<close>
  declares the field: a string for \<^verbatim>\<open>id\<close>, \<^verbatim>\<open>description\<close> and \<^verbatim>\<open>vendor\<close>, a
  number for the others (\<^verbatim>\<open>Number(value)\<close> is then \<^verbatim>\<open>value\<close> itself).
\<close>

datatype edit =
  Set_id string | Set_description string | Set_vendor string | Set_inStock number
  | Set_par number | Set_order number | Set_price number

fun field_of :: "edit \<Rightarrow> field" where
  "field_of (Set_id _) = Field_id"
| "field_of (Set_description _) = Field_description"
| "field_of (Set_vendor _) = Field_vendor"
| "field_of (Set_inStock _) = Field_inStock"
| "field_of (Set_par _) = Field_par"
| "field_of (Set_order _) = Field_order"
| "field_of (Set_price _) = Field_price"

text \<open>The object spread \<^verbatim>\<open>{ ...item, [field]: value }\<close>.\<close>

fun assign :: "edit \<Rightarrow> InvoiceItem \<Rightarrow> InvoiceItem" where
  "assign (Set_id s) item = item\<lparr>item_id := s\<rparr>"
| "assign (Set_description s) item = item\<lparr>description := s\<rparr>"
| "assign (Set_vendor s) item = item\<lparr>vendor := s\<rparr>"
| "assign (Set_inStock n) item = item\<lparr>inStock := n\<rparr>"
| "assign (Set_par n) item = item\<lparr>par := n\<rparr>"
| "assign (Set_order n) item = item\<lparr>order := n\<rparr>"
| "assign (Set_price n) item = item\<lparr>price := n\<rparr>"

text \<open>\<^verbatim>\<open>field === 'inStock' ? Number(value) : item.inStock\<close>, and the same for par.\<close>

fun inStock_for :: "edit \<Rightarrow> InvoiceItem \<Rightarrow> number" where
  "inStock_for (Set_inStock n) item = n"
| "inStock_for _ item = inStock item"

fun par_for :: "edit \<Rightarrow> InvoiceItem \<Rightarrow> number" where
  "par_for (Set_par n) item = n"
| "par_for _ item = par item"

text \<open>The callback of \<^verbatim>\<open>prev.map\<close> in \<^verbatim>\<open>updateItem\<close>.\<close>

definition update_one :: "string \<Rightarrow> edit \<Rightarrow> InvoiceItem \<Rightarrow> InvoiceItem" where
  "update_one id' e item =
     (if item_id item \<noteq> id' then item
      else (let updated = assign e item in
            if field_of e = Field_inStock \<or> field_of e = Field_par
            then updated\<lparr>order := max 0 (par_for e item - inStock_for e item)\<rparr>
            else updated))"

definition updateItem :: "string \<Rightarrow> edit \<Rightarrow> InvoiceItem list \<Rightarrow> InvoiceItem list" where
  "updateItem id' e prev = map (update_one id' e) prev"

text \<open>Reading a field, as a value of either type.\<close>

datatype field_value = Str string | Num number

fun get_field :: "field \<Rightarrow> InvoiceItem \<Rightarrow> field_value" where
  "get_field Field_id item = Str (item_id item)"
| "get_field Field_description item = Str (description item)"
| "get_field Field_vendor item = Str (vendor item)"
| "get_field Field_inStock item = Num (inStock item)"
| "get_field Field_par item = Num (par item)"
| "get_field Field_order item = Num (order item)"
| "get_field Field_price item = Num (price item)"

text \<open>Two rows of a review, for the concrete instances below.\<close>

definition rice :: InvoiceItem where
  "rice = \<lparr>item_id = ''item-1'', description = ''Rice'', vendor = ''V'',
     inStock = 3, par = 8, order = 5, price = 0\<rparr>"

definition beans :: InvoiceItem where
  "beans = \<lparr>item_id = ''item-2'', description = ''beans'', vendor = ''V'',
     inStock = 1, par = 4, order = 3, price = 5 / 2\<rparr>"

section \<open>Strings, numbers and arrays of the JavaScript runtime\<close>

definition tab :: char where
  "tab = CHR 0x09"

definition newline :: char where
  "newline = CHR 0x0A"

text \<open>
  A character of the model is a code unit below 256, read as Latin-1; code units above
  are outside the model.
\<close>

definition digit_char :: "nat \<Rightarrow> char" where
  "digit_char n = char_of (48 + n mod 10)"

fun nat_to_string :: "nat \<Rightarrow> string" where
  "nat_to_string n =
     (if n < 10 then [digit_char n] else nat_to_string (n div 10) @ [digit_char (n mod 10)])"

declare nat_to_string.simps [simp del]

text \<open>The decimal digits of a number between 0 and 1, at most \<open>k\<close> of them.\<close>

fun fraction_digits :: "nat \<Rightarrow> number \<Rightarrow> string" where
  "fraction_digits 0 r = []"
| "fraction_digits (Suc k) r =
     (if r = 0 then []
      else digit_char (nat \<lfloor>r * 10\<rfloor>) # fraction_digits k (r * 10 - of_int \<lfloor>r * 10\<rfloor>))"

text \<open>
  The position of the decimal point of a positive number \<open>x\<close>: the \<open>n\<close> with
  \<open>10\<^sup>n\<^sup>-\<^sup>1 \<le> x < 10\<^sup>n\<close>, found by counting the digits of the whole part, or the zeros
  that follow the point (no number of JavaScript needs more than 400 steps).
\<close>

fun whole_digits :: "nat \<Rightarrow> number \<Rightarrow> nat" where
  "whole_digits 0 r = 0"
| "whole_digits (Suc k) r = (if 1 \<le> r then Suc (whole_digits k (r / 10)) else 0)"

fun leading_zeros :: "nat \<Rightarrow> number \<Rightarrow> nat" where
  "leading_zeros 0 r = 0"
| "leading_zeros (Suc k) r = (if r * 10 < 1 then Suc (leading_zeros k (r * 10)) else 0)"

definition decimal_point :: "number \<Rightarrow> int" where
  "decimal_point x =
     (if 1 \<le> x then int (whole_digits 400 x) else - int (leading_zeros 400 x))"

definition scale10 :: "int \<Rightarrow> number \<Rightarrow> number" where
  "scale10 e x = (if 0 \<le> e then x * 10 ^ nat e else x / 10 ^ nat (- e))"

text \<open>The significant digits of a positive number, without zeros at the end.\<close>

definition significant_digits :: "number \<Rightarrow> string" where
  "significant_digits x =
     rev (dropWhile (\<lambda>c. c = CHR ''0'')
       (rev (fraction_digits 17 (scale10 (- decimal_point x) x))))"

definition exponent_text :: "int \<Rightarrow> string" where
  "exponent_text e = ''e'' @ (if e < 0 then ''-'' else ''+'') @ nat_to_string (nat \<bar>e\<bar>)"

text \<open>
  The text of a number in a template literal, as \<^verbatim>\<open>Number.prototype.toString\<close>
  composes it from the significant digits \<open>digits\<close>, their number \<open>k\<close> and the position
  \<open>n\<close> of the decimal point: the digits and zeros up to the point when \<open>k \<le> n \<le> 21\<close>,
  the digits with a point inside when \<open>0 < n \<le> 21\<close>, \<^verbatim>\<open>0.\<close> and zeros before the
  digits when \<open>-6 < n \<le> 0\<close>, and exponent notation otherwise. A JavaScript number stands
  in the model for the shortest decimal that reads back as that number, which has at most
  17 significant digits; a rational with more digits is the value of no JavaScript number,
  and of it the first 17 digits are printed.
\<close>

definition positive_to_string :: "number \<Rightarrow> string" where
  "positive_to_string x =
     (let n = decimal_point x;
          digits = significant_digits x;
          k = int (length digits)
      in if k \<le> n \<and> n \<le> 21 then digits @ replicate (nat (n - k)) (CHR ''0'')
         else if 0 < n \<and> n \<le> 21 then take (nat n) digits @ ''.'' @ drop (nat n) digits
         else if - 6 < n \<and> n \<le> 0 then ''0.'' @ replicate (nat (- n)) (CHR ''0'') @ digits
         else if k = 1 then digits @ exponent_text (n - 1)
         else take 1 digits @ ''.'' @ drop 1 digits @ exponent_text (n - 1))"

definition number_to_string :: "number \<Rightarrow> string" where
  "number_to_string x =
     (if x = 0 then ''0''
      else if x < 0 then ''-'' @ positive_to_string (- x)
      else positive_to_string x)"

text \<open>
  \<^verbatim>\<open>String.prototype.toLowerCase\<close>: the capital letters A to Z and the capital letters
  of Latin-1 (\<open>0xC0\<close> to \<open>0xDE\<close>, without the multiplication sign \<open>0xD7\<close>) are
  moved to their small letters, 32 places up.
\<close>

definition lower_char :: "char \<Rightarrow> char" where
  "lower_char c =
     (if (65 \<le> (of_char c :: nat) \<and> (of_char c :: nat) \<le> 90)
         \<or> (192 \<le> (of_char c :: nat) \<and> (of_char c :: nat) \<le> 222 \<and> (of_char c :: nat) \<noteq> 215)
      then char_of ((of_char c :: nat) + 32) else c)"

definition toLowerCase :: "string \<Rightarrow> string" where
  "toLowerCase s = map lower_char s"

text \<open>
  \<^verbatim>\<open>String.prototype.trim\<close>: the white space and line terminators below 256 are tab,
  line feed, vertical tab, form feed, carriage return, space and the no-break space.
\<close>

definition is_space :: "char \<Rightarrow> bool" where
  "is_space c = ((of_char c :: nat) = 32 \<or> (of_char c :: nat) = 160
     \<or> (9 \<le> (of_char c :: nat) \<and> (of_char c :: nat) \<le> 13))"

definition trim :: "string \<Rightarrow> string" where
  "trim s = rev (dropWhile is_space (rev (dropWhile is_space s)))"


text \<open>\<^verbatim>\<open>s.startsWith(p)\<close> and \<^verbatim>\<open>s.includes(p)\<close> (\<open>includes\<close> is a keyword of Isabelle).\<close>

fun startsWith :: "string \<Rightarrow> string \<Rightarrow> bool" where
  "startsWith s [] = True"
| "startsWith [] (p # ps) = False"
| "startsWith (c # cs) (p # ps) = (c = p \<and> startsWith cs ps)"

fun includes_str :: "string \<Rightarrow> string \<Rightarrow> bool" where
  "includes_str [] p = (p = [])"
| "includes_str (c # cs) p = (startsWith (c # cs) p \<or> includes_str cs p)"

text \<open>\<^verbatim>\<open>lines.join(sep)\<close>.\<close>

fun join :: "string \<Rightarrow> string list \<Rightarrow> string" where
  "join sep [] = []"
| "join sep [l] = l"
| "join sep (l # m # ls) = l @ sep @ join sep (m # ls)"

text \<open>
  The contents of an array after \<^verbatim>\<open>Array.prototype.sort(cmp)\<close>: the sort is stable, and
  \<open>cmp x y \<le> 0\<close> keeps \<open>x\<close> before \<open>y\<close>. Each element is put in front of the first
  element of the sorted rest that it does not come after.
\<close>

fun place :: "('a \<Rightarrow> 'a \<Rightarrow> int) \<Rightarrow> 'a \<Rightarrow> 'a list \<Rightarrow> 'a list" where
  "place cmp x [] = [x]"
| "place cmp x (y # ys) = (if cmp x y \<le> 0 then x # y # ys else y # place cmp x ys)"

fun sorted_contents :: "('a \<Rightarrow> 'a \<Rightarrow> int) \<Rightarrow> 'a list \<Rightarrow> 'a list" where
  "sorted_contents cmp [] = []"
| "sorted_contents cmp (x # xs) = place cmp x (sorted_contents cmp xs)"

text \<open>
  Arrays are objects: a variable holds a reference, and \<^verbatim>\<open>sort\<close> changes the array it is
  called on. The store maps references to the contents of the arrays of items;
  \<open>next_ref\<close> is the first reference not yet in use.
\<close>

record store =
  arrays :: "nat \<Rightarrow> InvoiceItem list"
  next_ref :: nat

definition allocate :: "InvoiceItem list \<Rightarrow> store \<Rightarrow> nat \<times> store" where
  "allocate xs h =
     (next_ref h, h\<lparr>arrays := (arrays h)(next_ref h := xs), next_ref := Suc (next_ref h)\<rparr>)"

text \<open>The array literal \<^verbatim>\<open>[...xs]\<close>: a new array with the elements of \<^verbatim>\<open>xs\<close>.\<close>

definition spread :: "nat \<Rightarrow> store \<Rightarrow> nat \<times> store" where
  "spread r h = allocate (arrays h r) h"

text \<open>\<^verbatim>\<open>xs.sort(cmp)\<close>: sorts the array \<^verbatim>\<open>xs\<close> itself and returns the same reference.\<close>

definition sort_in_place ::
  "(InvoiceItem \<Rightarrow> InvoiceItem \<Rightarrow> int) \<Rightarrow> nat \<Rightarrow> store \<Rightarrow> nat \<times> store" where
  "sort_in_place cmp r h = (r, h\<lparr>arrays := (arrays h)(r := sorted_contents cmp (arrays h r))\<rparr>)"

section \<open>Export Sink (App.tsx)\<close>

text \<open>
  What the program takes from the browser: the collation of \<^verbatim>\<open>localeCompare\<close>, the
  answer of \<^verbatim>\<open>fetch\<close> to a request (the text of the response, or an exception of the
  call or of reading the text), whether \<^verbatim>\<open>navigator.clipboard.writeText\<close> resolves, and
  the clock.
\<close>

datatype json =
  JNumber number | JString string | JArray "json list" | JObject "(string \<times> json) list"

datatype fetch_result = Fetch_throws | Response_text string

record browser =
  localeCompare :: "string \<Rightarrow> string \<Rightarrow> int"
  fetch :: "string \<Rightarrow> json \<Rightarrow> fetch_result"
  writeText :: "string \<Rightarrow> bool"
  Date_now :: nat
  Date_toISOString :: string

text \<open>
  The comparison function of every sort of the program:
  \<^verbatim>\<open>(a, b) => a.description.toLowerCase().localeCompare(b.description.toLowerCase())\<close>.
\<close>

definition by_description :: "browser \<Rightarrow> InvoiceItem \<Rightarrow> InvoiceItem \<Rightarrow> int" where
  "by_description b x y =
     localeCompare b (toLowerCase (description x)) (toLowerCase (description y))"

text \<open>The objects built by the \<^verbatim>\<open>map\<close> of \<^verbatim>\<open>uploadToScript\<close> and \<^verbatim>\<open>getSortedExportData\<close>.\<close>

record export_row =
  row_inStock :: number
  row_par :: number
  row_order :: number
  row_description :: string
  row_vendor :: string
  row_price :: number

definition to_row :: "InvoiceItem \<Rightarrow> export_row" where
  "to_row i = \<lparr>row_inStock = inStock i, row_par = par i, row_order = order i,
     row_description = description i, row_vendor = vendor i, row_price = price i\<rparr>"

definition row_json :: "export_row \<Rightarrow> json" where
  "row_json r = JObject [(''inStock'', JNumber (row_inStock r)), (''par'', JNumber (row_par r)),
     (''order'', JNumber (row_order r)), (''description'', JString (row_description r)),
     (''vendor'', JString (row_vendor r)), (''price'', JNumber (row_price r))]"

text \<open>The document that \<^verbatim>\<open>JSON.stringify({ items: payload })\<close> writes.\<close>

definition request_body :: "export_row list \<Rightarrow> json" where
  "request_body payload = JObject [(''items'', JArray (map row_json payload))]"

definition uploadToScript :: "browser \<Rightarrow> nat \<Rightarrow> string \<Rightarrow> store \<Rightarrow> bool \<times> store" where
  "uploadToScript b dataToUpload currentScriptUrl h =
     (if currentScriptUrl = [] then (False, h)
      else (let (copy, h1) = spread dataToUpload h;
                (sortedData, h2) = sort_in_place (by_description b) copy h1;
                payload = map to_row (arrays h2 sortedData)
            in (case fetch b currentScriptUrl (request_body payload) of
                  Fetch_throws \<Rightarrow> (False, h2)
                | Response_text text \<Rightarrow>
                    (if includes_str text ''Success'' then (True, h2) else (False, h2)))))"

definition getSortedExportData :: "browser \<Rightarrow> nat \<Rightarrow> store \<Rightarrow> export_row list \<times> store" where
  "getSortedExportData b items' h =
     (let (copy, h1) = spread items' h;
          (sortedData, h2) = sort_in_place (by_description b) copy h1
      in (map to_row (arrays h2 sortedData), h2))"

definition tsv_line :: "export_row \<Rightarrow> string" where
  "tsv_line i = row_vendor i @ [tab] @ row_description i @ [tab]
     @ number_to_string (row_inStock i) @ [tab] @ number_to_string (row_par i) @ [tab]
     @ number_to_string (row_order i) @ [tab] @ number_to_string (row_price i)"

definition tsvContent :: "export_row list \<Rightarrow> string" where
  "tsvContent exportData = join [newline] (map tsv_line exportData)"

section \<open>Application state and the export handlers (App.tsx)\<close>

datatype AppView = DASHBOARD | SCAN | REVIEW | HISTORY | SETTINGS

datatype InvoiceStatus = Draft | Uploaded

text \<open>
  \<^verbatim>\<open>items: items\<close> stores the array of the review itself in the record, so
  \<open>record_items\<close> is a reference.
\<close>

record InvoiceRecord =
  record_id :: string
  date :: string
  record_items :: nat
  totalItems :: nat
  status :: InvoiceStatus

record AppSettings =
  googleSheetUrl :: string
  scriptUrl :: string
  autoExport :: bool

datatype scan_mode = New | Append

datatype toast =
  Auto_export_successful | Auto_export_failed | Skipped_auto_export | Scanned nat string
  | Sent_to_sheet | Auto_upload_failed | Data_copied | Clipboard_denied

text \<open>
  The state of the component, the store of its arrays, and the system clipboard
  (\<open>None\<close> until something is written).
\<close>

record app_state =
  view :: AppView
  items :: nat
  heap :: store
  isProcessing :: bool
  loadingStep :: "string option"
  history :: "InvoiceRecord list"
  toastMessage :: "toast option"
  scanMode :: scan_mode
  showExportModal :: bool
  settings :: AppSettings
  clipboard :: "string option"

definition copyToClipboard :: "browser \<Rightarrow> app_state \<Rightarrow> bool \<times> app_state" where
  "copyToClipboard b s =
     (let (exportData, h) = getSortedExportData b (items s) (heap s);
          text = tsvContent exportData
      in if writeText b text
         then (True, s\<lparr>heap := h, clipboard := Some text, toastMessage := Some Data_copied\<rparr>)
         else (False, s\<lparr>heap := h, toastMessage := Some Clipboard_denied\<rparr>))"

text \<open>
  \<^verbatim>\<open>handleManualExport\<close>, up to its last statement; the change of view that its timer
  schedules belongs to a later event.
\<close>

definition clipboard_fallback :: "browser \<Rightarrow> app_state \<Rightarrow> app_state" where
  "clipboard_fallback b s = (snd (copyToClipboard b s))\<lparr>showExportModal := True\<rparr>"

definition handleManualExport :: "browser \<Rightarrow> app_state \<Rightarrow> app_state" where
  "handleManualExport b s =
     (let newRecord = \<lparr>record_id = nat_to_string (Date_now b), date = Date_toISOString b,
            record_items = items s, totalItems = length (arrays (heap s) (items s)),
            status = Uploaded\<rparr>;
          s1 = s\<lparr>history := newRecord # history s\<rparr>
      in if scriptUrl (settings s) \<noteq> []
         then (let s2 = s1\<lparr>loadingStep := Some ''uploading'', isProcessing := True\<rparr>;
                   (success, h) = uploadToScript b (items s) (scriptUrl (settings s)) (heap s2);
                   s3 = s2\<lparr>heap := h, isProcessing := False, loadingStep := None\<rparr>
               in if success then s3\<lparr>toastMessage := Some Sent_to_sheet\<rparr>
                  else clipboard_fallback b (s3\<lparr>toastMessage := Some Auto_upload_failed\<rparr>))
         else clipboard_fallback b s1)"

section \<open>Model Gateway: handling the response (services/geminiService.ts)\<close>

text \<open>
  A property read from a parsed object, by what the code can do with it: missing or falsy,
  a value of the expected kind, or another truthy value (one that has no \<^verbatim>\<open>trim\<close>,
  or no \<^verbatim>\<open>map\<close>).
\<close>

datatype 'a property = Missing | Has 'a | Other_truthy

text \<open>
  What \<^verbatim>\<open>JSON.parse\<close> returns: an array, an object with its \<^verbatim>\<open>vendorName\<close> and
  \<^verbatim>\<open>items\<close>, \<^verbatim>\<open>null\<close>, or a number, string or boolean. An element of a list is
  \<open>None\<close> for \<^verbatim>\<open>null\<close>; any other element is read through the five properties of
  \<open>raw_item\<close>.
\<close>

datatype json_root =
  Root_array "raw_item option list"
  | Root_object "string property" "raw_item option list property"
  | Root_null
  | Root_primitive

text \<open>
  The outcome of \<^verbatim>\<open>generateContent\<close>: the call throws, the response has no text (or an
  empty one), the text is not JSON, or the text parses.
\<close>

datatype model_response = Call_rejected | No_text | Text_not_json | Text_json json_root

datatype exn = Api_error | SyntaxError | TypeError

datatype error = Error string

text \<open>
  \<^verbatim>\<open>itemsList.map\<close>: reading a property of \<^verbatim>\<open>null\<close> throws. The \<open>k\<close>-th call of the
  callback draws the identifier \<open>ids k\<close>.
\<close>

fun map_items ::
  "string \<Rightarrow> (nat \<Rightarrow> string) \<Rightarrow> nat \<Rightarrow> raw_item option list \<Rightarrow> exn + InvoiceItem list" where
  "map_items vendorName ids k [] = Inr []"
| "map_items vendorName ids k (None # rest) = Inl TypeError"
| "map_items vendorName ids k (Some item # rest) =
     (case map_items vendorName ids (Suc k) rest of
        Inl e \<Rightarrow> Inl e
      | Inr mapped \<Rightarrow> Inr (map_item vendorName (ids k) item # mapped))"

text \<open>The body of the \<^verbatim>\<open>try\<close> block, from \<^verbatim>\<open>response.text\<close> on.\<close>

definition try_block :: "(nat \<Rightarrow> string) \<Rightarrow> model_response \<Rightarrow> exn + InvoiceItem list" where
  "try_block ids response =
     (case response of
        Call_rejected \<Rightarrow> Inl Api_error
      | No_text \<Rightarrow> Inr []
      | Text_not_json \<Rightarrow> Inl SyntaxError
      | Text_json rawData \<Rightarrow>
          (case rawData of
             Root_array itemsList \<Rightarrow> map_items [] ids 0 itemsList
           | Root_null \<Rightarrow> Inl TypeError
           | Root_primitive \<Rightarrow> map_items [] ids 0 []
           | Root_object vendor_property items_property \<Rightarrow>
               (case vendor_property of
                  Other_truthy \<Rightarrow> Inl TypeError
                | Missing \<Rightarrow>
                    (case items_property of
                       Missing \<Rightarrow> map_items [] ids 0 []
                     | Has itemsList \<Rightarrow> map_items [] ids 0 itemsList
                     | Other_truthy \<Rightarrow> Inl TypeError)
                | Has name \<Rightarrow>
                    (case items_property of
                       Missing \<Rightarrow> map_items (trim name) ids 0 []
                     | Has itemsList \<Rightarrow> map_items (trim name) ids 0 itemsList
                     | Other_truthy \<Rightarrow> Inl TypeError))))"

definition extraction_failed :: error where
  "extraction_failed = Error ''Failed to extract data from the invoice. Please try again.''"

text \<open>The \<^verbatim>\<open>catch\<close> block logs the exception and throws the one fixed error.\<close>

definition extractInvoiceData :: "(nat \<Rightarrow> string) \<Rightarrow> model_response \<Rightarrow> error + InvoiceItem list" where
  "extractInvoiceData ids response =
     (case try_block ids response of
        Inl e \<Rightarrow> Inl extraction_failed
      | Inr mapped \<Rightarrow> Inr mapped)"

definition sample_ids :: "nat \<Rightarrow> string" where
  "sample_ids k = ''item-'' @ nat_to_string k"

section \<open>Scanning a sheet (App.tsx, handleFileUpload)\<close>

text \<open>
  The handler after a file was chosen: no file, a failure of reading it, or the outcome
  of \<^verbatim>\<open>extractInvoiceData\<close>. The array that the extraction returns is new.
\<close>

datatype upload_event = No_file | Read_fails | Extraction "error + InvoiceItem list"

definition vendor_of_first :: "InvoiceItem list \<Rightarrow> string" where
  "vendor_of_first extracted =
     (case extracted of
        [] \<Rightarrow> ''Unknown Vendor''
      | x # _ \<Rightarrow> (if vendor x \<noteq> [] then vendor x else ''Unknown Vendor''))"

definition auto_export :: "browser \<Rightarrow> nat \<Rightarrow> toast \<Rightarrow> app_state \<Rightarrow> app_state" where
  "auto_export b extractedItems successMessage s =
     (if autoExport (settings s) \<and> scriptUrl (settings s) \<noteq> []
      then (let s1 = s\<lparr>loadingStep := Some ''uploading''\<rparr>;
                (success, h) = uploadToScript b extractedItems (scriptUrl (settings s)) (heap s1)
            in if success
               then s1\<lparr>heap := h, toastMessage := Some Auto_export_successful\<rparr>
               else s1\<lparr>heap := h, toastMessage := Some Auto_export_failed,
                      showExportModal := True\<rparr>)
      else if autoExport (settings s) \<and> scriptUrl (settings s) = []
      then s\<lparr>toastMessage := Some Skipped_auto_export\<rparr>
      else s\<lparr>toastMessage := Some successMessage\<rparr>)"

definition set_scanned_items :: "nat \<Rightarrow> app_state \<Rightarrow> app_state" where
  "set_scanned_items extractedItems s =
     (if scanMode s = Append
      then (let (joined, h) =
                  allocate (arrays (heap s) (items s) @ arrays (heap s) extractedItems) (heap s)
            in s\<lparr>items := joined, heap := h\<rparr>)
      else s\<lparr>items := extractedItems\<rparr>)"

definition handleFileUpload :: "browser \<Rightarrow> upload_event \<Rightarrow> app_state \<Rightarrow> app_state" where
  "handleFileUpload b event s =
     (case event of
        No_file \<Rightarrow> s
      | Read_fails \<Rightarrow> s\<lparr>view := SCAN, isProcessing := False, loadingStep := None\<rparr>
      | Extraction (Inl e) \<Rightarrow>
          s\<lparr>view := (if scanMode s = Append then REVIEW else DASHBOARD),
            isProcessing := False, loadingStep := None\<rparr>
      | Extraction (Inr extracted) \<Rightarrow>
          (let s0 = s\<lparr>isProcessing := True, loadingStep := Some ''analyzing'', view := SCAN\<rparr>;
               (extractedItems, h) = allocate extracted (heap s0);
               successMessage = Scanned (length extracted) (vendor_of_first extracted);
               s1 = auto_export b extractedItems successMessage (s0\<lparr>heap := h\<rparr>);
               s2 = set_scanned_items extractedItems s1
           in s2\<lparr>view := REVIEW, isProcessing := False, loadingStep := None\<rparr>))"

section \<open>Concrete browsers and states\<close>


definition codepoint_compare :: "string \<Rightarrow> string \<Rightarrow> int" where
  "codepoint_compare x y =
     (let kx = map of_char x :: nat list; ky = map of_char y :: nat list
      in if kx < ky then - 1 else if kx = ky then 0 else 1)"

definition online_browser :: browser where
  "online_browser = \<lparr>localeCompare = codepoint_compare,
     fetch = (\<lambda>url body. Response_text ''Success''),
     writeText = (\<lambda>text. True),
     Date_now = 1700000000000,
     Date_toISOString = ''2023-11-14T22:13:20.000Z''\<rparr>"

definition offline_browser :: browser where
  "offline_browser = \<lparr>localeCompare = codepoint_compare,
     fetch = (\<lambda>url body. Fetch_throws),
     writeText = (\<lambda>text. False),
     Date_now = 1700000000000,
     Date_toISOString = ''2023-11-14T22:13:20.000Z''\<rparr>"

definition review_store :: store where
  "review_store = \<lparr>arrays = (\<lambda>r. if r = 0 then [rice, beans] else []), next_ref = 1\<rparr>"

definition review_state :: app_state where
  "review_state = \<lparr>view = REVIEW, items = 0, heap = review_store, isProcessing = False,
     loadingStep = None, history = [], toastMessage = None, scanMode = New,
     showExportModal = False,
     settings = \<lparr>googleSheetUrl = ''https://docs.google.com/spreadsheets/d/1'',
       scriptUrl = ''https://script.google.com/macros/s/1/exec'', autoExport = True\<rparr>,
     clipboard = None\<rparr>"




definition empty_state :: app_state where
  "empty_state = review_state\<lparr>heap := \<lparr>arrays = (\<lambda>r. []), next_ref = 1\<rparr>\<rparr>"

definition answering :: "string \<Rightarrow> browser" where
  "answering text = online_browser\<lparr>fetch := (\<lambda>url body. Response_text text)\<rparr>"

section \<open>Properties of the normalization\<close>

lemma Number_or_0_Some: "Number_or_0 (Some n) = n"
  by (simp add: Number_or_0_def)

lemma Number_or_0_None: "Number_or_0 None = 0"
  by (simp add: Number_or_0_def)

lemma par_map_item:
  "par (map_item v i row) =
     (if Number_or_0 (column2_par row) = 0
      then (if Number_or_0 (column3_order row) > 0
            then Number_or_0 (column1_inStock row) + Number_or_0 (column3_order row)
            else (if Number_or_0 (column1_inStock row) > 0
                  then Number_or_0 (column1_inStock row) + 5 else 10))
      else Number_or_0 (column2_par row))"
  by (simp add: map_item_def Let_def)

lemma inStock_map_item: "inStock (map_item v i row) = Number_or_0 (column1_inStock row)"
  by (simp add: map_item_def Let_def)

lemma order_map_item:
  "order (map_item v i row) =
     (if Number_or_0 (column3_order row) = 0 \<and> par (map_item v i row) > 0
      then max 0 (par (map_item v i row) - inStock (map_item v i row))
      else Number_or_0 (column3_order row))"
  by (simp add: map_item_def Let_def)

text \<open>
  C1, as the code has it: a par written on the sheet is kept whenever it is not zero (a
  negative one too); only a par of zero is resolved, to stock plus order when an order is
  written, and else to stock plus 5 for a positive stock and to 10 otherwise. The row of
  the scenario (stock 3, no par, no order) gets par 8 and order 5.
\<close>

theorem normalize_par_resolution:
  "par (map_item v i row) =
     (if Number_or_0 (column2_par row) \<noteq> 0 then Number_or_0 (column2_par row)
      else if Number_or_0 (column3_order row) > 0
           then Number_or_0 (column1_inStock row) + Number_or_0 (column3_order row)
      else if Number_or_0 (column1_inStock row) > 0
           then Number_or_0 (column1_inStock row) + 5
      else 10)
   \<and> inStock (map_item v i rice_row) = 3
   \<and> par (map_item v i rice_row) = 8
   \<and> order (map_item v i rice_row) = 5"
proof -
  have scenario: "inStock (map_item v i rice_row) = 3 \<and> par (map_item v i rice_row) = 8
      \<and> order (map_item v i rice_row) = 5"
    by (simp add: map_item_def rice_row_def Number_or_0_def Let_def)
  show ?thesis
    using scenario by (simp add: par_map_item)
qed

text \<open>
  The claim as stated fails for a negative par: with par \<open>-1\<close>, order 2 and stock 3 the
  written par is not positive and the written order is, yet the normalized par is \<open>-1\<close>
  and not \<open>3 + 2\<close>.
\<close>

theorem normalize_par_counterexample:
  "\<not> Number_or_0 (column2_par negative_par_row) > 0
   \<and> Number_or_0 (column3_order negative_par_row) > 0
   \<and> par (map_item ''V'' ''item-1'' negative_par_row) = - 1
   \<and> par (map_item ''V'' ''item-1'' negative_par_row)
       \<noteq> Number_or_0 (column1_inStock negative_par_row)
         + Number_or_0 (column3_order negative_par_row)"
  by (simp add: map_item_def negative_par_row_def Number_or_0_def Let_def)

text \<open>
  C2, as the code has it: a written order greater than zero is kept verbatim, also when it
  differs from par minus stock (the row with stock 2, par 10 and order 3 keeps order 3,
  not 8). With no order written, the order is \<open>max 0 (par - inStock)\<close> for the
  resolved par when that par is positive, and stays 0 when it is not; the resolved par is
  positive whenever the written par is not negative.
\<close>

theorem normalize_order_resolution:
  "(Number_or_0 (column3_order row) > 0 \<longrightarrow>
      order (map_item v i row) = Number_or_0 (column3_order row))
   \<and> (Number_or_0 (column3_order row) = 0 \<longrightarrow>
      order (map_item v i row) =
        (if par (map_item v i row) > 0
         then max 0 (par (map_item v i row) - inStock (map_item v i row))
         else 0))
   \<and> (Number_or_0 (column2_par row) \<ge> 0 \<and> Number_or_0 (column3_order row) \<le> 0 \<longrightarrow>
      par (map_item v i row) > 0)
   \<and> order (map_item v i explicit_order_row) = 3
   \<and> par (map_item v i explicit_order_row) - inStock (map_item v i explicit_order_row) = 8"
proof -
  have kept: "Number_or_0 (column3_order row) > 0 \<longrightarrow>
      order (map_item v i row) = Number_or_0 (column3_order row)"
    by (simp add: order_map_item)
  have derived: "Number_or_0 (column3_order row) = 0 \<longrightarrow>
      order (map_item v i row) =
        (if par (map_item v i row) > 0
         then max 0 (par (map_item v i row) - inStock (map_item v i row))
         else 0)"
    by (simp add: order_map_item)
  have positive: "Number_or_0 (column2_par row) \<ge> 0 \<and> Number_or_0 (column3_order row) \<le> 0 \<longrightarrow>
      par (map_item v i row) > 0"
    by (auto simp add: par_map_item)
  have example: "order (map_item v i explicit_order_row) = 3
      \<and> par (map_item v i explicit_order_row) - inStock (map_item v i explicit_order_row) = 8"
    by (simp add: map_item_def explicit_order_row_def Number_or_0_def Let_def)
  show ?thesis
    using kept derived positive example by blast
qed

theorem normalize_order_resolution_witness:
  "Number_or_0 (column3_order explicit_order_row) > 0
   \<and> order (map_item ''V'' ''item-1'' explicit_order_row) = 3
   \<and> Number_or_0 (column3_order rice_row) = 0
   \<and> Number_or_0 (column2_par rice_row) \<ge> 0
   \<and> par (map_item ''V'' ''item-1'' rice_row) > 0
   \<and> order (map_item ''V'' ''item-1'' rice_row) = 5"
proof -
  have a: "Number_or_0 (column3_order explicit_order_row) > 0"
    by (simp add: explicit_order_row_def Number_or_0_def)
  have b: "Number_or_0 (column3_order rice_row) = 0"
    by (simp add: rice_row_def Number_or_0_def)
  have c: "Number_or_0 (column2_par rice_row) \<ge> 0"
    by (simp add: rice_row_def Number_or_0_def)
  have d: "inStock (map_item ''V'' ''item-1'' rice_row) = 3"
    by (simp add: inStock_map_item rice_row_def Number_or_0_def)
  have e: "par (map_item ''V'' ''item-1'' rice_row) = 8"
    by (simp add: par_map_item rice_row_def Number_or_0_def)
  show ?thesis
    using a b c d e
      normalize_order_resolution [of explicit_order_row "''V''" "''item-1''"]
      normalize_order_resolution [of rice_row "''V''" "''item-1''"]
    by simp
qed

text \<open>
  The claim as stated fails when no order is written and both the written par and the
  stock are negative: with par \<open>-1\<close> and stock \<open>-3\<close> the order stays 0, while
  \<open>max 0 (par - inStock)\<close> is 2.
\<close>

theorem normalize_order_counterexample:
  "Number_or_0 (column3_order negative_stock_row) = 0
   \<and> order (map_item ''V'' ''item-1'' negative_stock_row) = 0
   \<and> max 0 (par (map_item ''V'' ''item-1'' negative_stock_row)
             - inStock (map_item ''V'' ''item-1'' negative_stock_row)) = 2"
  by (simp add: map_item_def negative_stock_row_def Number_or_0_def Let_def)

section \<open>Properties of editing a row\<close>

lemma update_one_other: "item_id item \<noteq> i \<Longrightarrow> update_one i e item = item"
  by (simp add: update_one_def)

lemma update_one_inStock:
  "item_id item = i \<Longrightarrow>
   update_one i (Set_inStock v) item = item\<lparr>inStock := v, order := max 0 (par item - v)\<rparr>"
  by (simp add: update_one_def)

lemma update_one_par:
  "item_id item = i \<Longrightarrow>
   update_one i (Set_par v) item = item\<lparr>par := v, order := max 0 (v - inStock item)\<rparr>"
  by (simp add: update_one_def)

lemma update_one_order:
  "item_id item = i \<Longrightarrow> update_one i (Set_order v) item = item\<lparr>order := v\<rparr>"
  by (simp add: update_one_def)

lemma update_one_twice_inStock:
  "update_one i (Set_inStock v) (update_one i (Set_inStock v) item)
     = update_one i (Set_inStock v) item"
  by (simp add: update_one_def)

lemma update_one_twice_par:
  "update_one i (Set_par v) (update_one i (Set_par v) item) = update_one i (Set_par v) item"
  by (simp add: update_one_def)

lemma updateItem_nth:
  "k < length prev \<Longrightarrow> updateItem i e prev ! k = update_one i e (prev ! k)"
  by (simp add: updateItem_def)

lemma update_one_frame:
  "f \<noteq> field_of e \<Longrightarrow> f \<noteq> Field_order \<Longrightarrow>
   get_field f (update_one i e item) = get_field f item"
  by (cases e; cases f) (simp_all add: update_one_def)

text \<open>
  C3: for every collection and every position \<open>k\<close> holding an item with the given id, an
  update of \<^verbatim>\<open>inStock\<close> or of \<^verbatim>\<open>par\<close> stores the new value and sets the order of
  that item to \<open>max 0 (par - inStock)\<close>, computed from the new value of the edited field
  and the stored value of the other one; an update of \<^verbatim>\<open>order\<close> stores the given value
  and leaves par and stock as they were; and applying the same stock or par update a second
  time changes nothing any more, so the order is the same as after the first time.
\<close>

theorem update_order_rule:
  assumes "k < length prev" and "item_id (prev ! k) = i"
  shows "inStock (updateItem i (Set_inStock v) prev ! k) = v
    \<and> par (updateItem i (Set_inStock v) prev ! k) = par (prev ! k)
    \<and> order (updateItem i (Set_inStock v) prev ! k) = max 0 (par (prev ! k) - v)
    \<and> par (updateItem i (Set_par v) prev ! k) = v
    \<and> inStock (updateItem i (Set_par v) prev ! k) = inStock (prev ! k)
    \<and> order (updateItem i (Set_par v) prev ! k) = max 0 (v - inStock (prev ! k))
    \<and> order (updateItem i (Set_order v) prev ! k) = v
    \<and> par (updateItem i (Set_order v) prev ! k) = par (prev ! k)
    \<and> inStock (updateItem i (Set_order v) prev ! k) = inStock (prev ! k)
    \<and> updateItem i (Set_inStock v) (updateItem i (Set_inStock v) prev)
        = updateItem i (Set_inStock v) prev
    \<and> updateItem i (Set_par v) (updateItem i (Set_par v) prev)
        = updateItem i (Set_par v) prev"
proof -
  have twice_stock: "updateItem i (Set_inStock v) (updateItem i (Set_inStock v) prev)
        = updateItem i (Set_inStock v) prev"
    by (simp add: updateItem_def update_one_twice_inStock)
  have twice_par: "updateItem i (Set_par v) (updateItem i (Set_par v) prev)
        = updateItem i (Set_par v) prev"
    by (simp add: updateItem_def update_one_twice_par)
  show ?thesis
    using assms twice_stock twice_par
    by (simp add: updateItem_nth update_one_inStock update_one_par update_one_order)
qed

theorem update_order_rule_witness:
  "(0::nat) < length [rice, beans] \<and> item_id ([rice, beans] ! 0) = ''item-1''
   \<and> order (updateItem ''item-1'' (Set_inStock 6) [rice, beans] ! 0) = 2
   \<and> order (updateItem ''item-1'' (Set_par 2) [rice, beans] ! 0) = 0
   \<and> order (updateItem ''item-1'' (Set_order 7) [rice, beans] ! 0) = 7
   \<and> par (updateItem ''item-1'' (Set_order 7) [rice, beans] ! 0) = 8
   \<and> inStock (updateItem ''item-1'' (Set_order 7) [rice, beans] ! 0) = 3"
proof -
  have k: "(0::nat) < length [rice, beans]" by simp
  have i: "item_id ([rice, beans] ! 0) = ''item-1''" by (simp add: rice_def)
  have p: "par ([rice, beans] ! 0) = 8" by (simp add: rice_def)
  have s: "inStock ([rice, beans] ! 0) = 3" by (simp add: rice_def)
  show ?thesis
    using k i p s update_order_rule [OF k i, of 6] update_order_rule [OF k i, of 2]
      update_order_rule [OF k i, of 7]
    by simp
qed

text \<open>
  C9: an update keeps the number of items and their positions; an item whose id differs
  from the given one is returned unchanged at its position; on every item, every field
  other than the named one and \<^verbatim>\<open>order\<close> is unchanged; and when no item has the given
  id the collection is returned as it was.
\<close>

theorem update_frame:
  "length (updateItem i e prev) = length prev
   \<and> (\<forall>k < length prev. item_id (prev ! k) \<noteq> i \<longrightarrow> updateItem i e prev ! k = prev ! k)
   \<and> (\<forall>k < length prev. \<forall>f. f \<noteq> field_of e \<and> f \<noteq> Field_order \<longrightarrow>
         get_field f (updateItem i e prev ! k) = get_field f (prev ! k))
   \<and> ((\<forall>item \<in> set prev. item_id item \<noteq> i) \<longrightarrow> updateItem i e prev = prev)"
proof -
  have len: "length (updateItem i e prev) = length prev"
    by (simp add: updateItem_def)
  have others: "\<forall>k < length prev. item_id (prev ! k) \<noteq> i \<longrightarrow>
      updateItem i e prev ! k = prev ! k"
    by (simp add: updateItem_nth update_one_other)
  have fields: "\<forall>k < length prev. \<forall>f. f \<noteq> field_of e \<and> f \<noteq> Field_order \<longrightarrow>
      get_field f (updateItem i e prev ! k) = get_field f (prev ! k)"
    by (simp add: updateItem_nth update_one_frame)
  have absent: "(\<forall>item \<in> set prev. item_id item \<noteq> i) \<longrightarrow> updateItem i e prev = prev"
    by (simp add: updateItem_def update_one_other map_idI)
  show ?thesis
    using len others fields absent by blast
qed

theorem update_frame_witness:
  "length (updateItem ''item-1'' (Set_par 2) [rice, beans]) = 2
   \<and> item_id ([rice, beans] ! 1) \<noteq> ''item-1''
   \<and> updateItem ''item-1'' (Set_par 2) [rice, beans] ! 1 = beans
   \<and> get_field Field_inStock (updateItem ''item-1'' (Set_par 2) [rice, beans] ! 0) = Num 3
   \<and> get_field Field_description (updateItem ''item-1'' (Set_par 2) [rice, beans] ! 0)
       = Str ''Rice''
   \<and> item_id rice \<noteq> ''item-9'' \<and> item_id beans \<noteq> ''item-9''
   \<and> updateItem ''item-9'' (Set_par 2) [rice, beans] = [rice, beans]"
proof -
  note edited = update_frame [of "''item-1''" "Set_par 2" "[rice, beans]"]
  note absent = update_frame [of "''item-9''" "Set_par 2" "[rice, beans]"]
  have ids: "item_id ([rice, beans] ! 1) \<noteq> ''item-1'' \<and> item_id rice \<noteq> ''item-9''
      \<and> item_id beans \<noteq> ''item-9''"
    by (simp add: rice_def beans_def)
  have len: "length (updateItem ''item-1'' (Set_par 2) [rice, beans]) = 2"
    using edited by simp
  have other: "updateItem ''item-1'' (Set_par 2) [rice, beans] ! 1 = beans"
    using edited ids by simp
  have allf: "\<forall>f. f \<noteq> field_of (Set_par 2) \<and> f \<noteq> Field_order \<longrightarrow>
      get_field f (updateItem ''item-1'' (Set_par 2) [rice, beans] ! 0)
        = get_field f ([rice, beans] ! 0)"
    using edited by simp
  have stock: "get_field Field_inStock (updateItem ''item-1'' (Set_par 2) [rice, beans] ! 0)
        = Num 3"
    using allf [rule_format, of Field_inStock] by (simp add: rice_def)
  have descr: "get_field Field_description (updateItem ''item-1'' (Set_par 2) [rice, beans] ! 0)
        = Str ''Rice''"
    using allf [rule_format, of Field_description] by (simp add: rice_def)
  note kept = conjI [OF stock descr]
  have none: "updateItem ''item-9'' (Set_par 2) [rice, beans] = [rice, beans]"
    using absent ids by simp
  show ?thesis
    using ids len other kept none by simp
qed

section \<open>Properties of the runtime functions and of the export\<close>

lemma startsWith_iff: "startsWith s p \<longleftrightarrow> (\<exists>rest. s = p @ rest)"
  by (induction s p rule: startsWith.induct) auto

lemma includes_str_iff: "includes_str s p \<longleftrightarrow> (\<exists>before after. s = before @ p @ after)"
proof (induction s)
  case Nil
  then show ?case by simp
next
  case (Cons c cs)
  have "(\<exists>before after. c # cs = before @ p @ after)
      \<longleftrightarrow> (\<exists>after. c # cs = p @ after) \<or> (\<exists>before after. cs = before @ p @ after)"
  proof
    assume "\<exists>before after. c # cs = before @ p @ after"
    then obtain before after where eq: "c # cs = before @ p @ after" by blast
    show "(\<exists>after. c # cs = p @ after) \<or> (\<exists>before after. cs = before @ p @ after)"
    proof (cases before)
      case Nil
      with eq show ?thesis by auto
    next
      case (Cons d ds)
      with eq have "cs = ds @ p @ after" by simp
      then show ?thesis by blast
    qed
  next
    assume "(\<exists>after. c # cs = p @ after) \<or> (\<exists>before after. cs = before @ p @ after)"
    then show "\<exists>before after. c # cs = before @ p @ after"
    proof
      assume "\<exists>after. c # cs = p @ after"
      then obtain after where "c # cs = [] @ p @ after" by auto
      then show ?thesis by blast
    next
      assume "\<exists>before after. cs = before @ p @ after"
      then obtain before after where "cs = before @ p @ after" by blast
      then have "c # cs = (c # before) @ p @ after" by simp
      then show ?thesis by blast
    qed
  qed
  with Cons show ?case by (simp add: startsWith_iff)
qed







lemma getSortedExportData_eq:
  "getSortedExportData b r h =
     (map to_row (sorted_contents (by_description b) (arrays h r)),
      h\<lparr>arrays := (arrays h)(next_ref h := sorted_contents (by_description b) (arrays h r)),
        next_ref := Suc (next_ref h)\<rparr>)"
  by (simp add: getSortedExportData_def spread_def allocate_def sort_in_place_def)

lemma uploadToScript_store:
  "snd (uploadToScript b r url h) =
     (if url = [] then h
      else h\<lparr>arrays := (arrays h)(next_ref h := sorted_contents (by_description b) (arrays h r)),
        next_ref := Suc (next_ref h)\<rparr>)"
  by (simp add: uploadToScript_def spread_def allocate_def sort_in_place_def
      split: fetch_result.split)

lemma uploadToScript_result:
  "fst (uploadToScript b r url h) =
     (url \<noteq> [] \<and>
      (case fetch b url (request_body (map to_row (sorted_contents (by_description b) (arrays h r))))
       of Fetch_throws \<Rightarrow> False | Response_text t \<Rightarrow> includes_str t ''Success''))"
  by (simp add: uploadToScript_def spread_def allocate_def sort_in_place_def
      split: fetch_result.split)

lemma uploadToScript_frame:
  "a < next_ref h \<Longrightarrow> arrays (snd (uploadToScript b r url h)) a = arrays h a"
  by (simp add: uploadToScript_store)

lemma getSortedExportData_frame:
  "a < next_ref h \<Longrightarrow> arrays (snd (getSortedExportData b r h)) a = arrays h a"
  by (simp add: getSortedExportData_eq)

lemma copyToClipboard_heap:
  "heap (snd (copyToClipboard b s)) = snd (getSortedExportData b (items s) (heap s))"
  by (simp add: copyToClipboard_def Let_def split: prod.split)

lemma copyToClipboard_items: "items (snd (copyToClipboard b s)) = items s"
  by (simp add: copyToClipboard_def Let_def split: prod.split)

lemma copyToClipboard_history: "history (snd (copyToClipboard b s)) = history s"
  by (simp add: copyToClipboard_def Let_def split: prod.split)

lemma clipboard_fallback_items: "items (clipboard_fallback b s) = items s"
  by (simp add: clipboard_fallback_def copyToClipboard_items)

lemma clipboard_fallback_history: "history (clipboard_fallback b s) = history s"
  by (simp add: clipboard_fallback_def copyToClipboard_history)

lemma clipboard_fallback_frame:
  "a < next_ref (heap s) \<Longrightarrow> arrays (heap (clipboard_fallback b s)) a = arrays (heap s) a"
  by (simp add: clipboard_fallback_def copyToClipboard_heap getSortedExportData_frame)

lemma uploadToScript_next: "next_ref h \<le> next_ref (snd (uploadToScript b r url h))"
  by (simp add: uploadToScript_store)

lemma handleManualExport_items: "items (handleManualExport b s) = items s"
  by (simp add: handleManualExport_def Let_def clipboard_fallback_items split: prod.split)

lemma handleManualExport_history:
  "history (handleManualExport b s) =
     \<lparr>record_id = nat_to_string (Date_now b), date = Date_toISOString b,
       record_items = items s, totalItems = length (arrays (heap s) (items s)),
       status = Uploaded\<rparr> # history s"
  by (simp add: handleManualExport_def Let_def clipboard_fallback_history split: prod.split)

lemma handleManualExport_frame:
  assumes "a < next_ref (heap s)"
  shows "arrays (heap (handleManualExport b s)) a = arrays (heap s) a"
proof (cases "scriptUrl (settings s) = []")
  case True
  with assms show ?thesis
    by (simp add: handleManualExport_def Let_def clipboard_fallback_frame)
next
  case False
  obtain success h where up: "uploadToScript b (items s) (scriptUrl (settings s)) (heap s) = (success, h)"
    by (cases "uploadToScript b (items s) (scriptUrl (settings s)) (heap s)")
  have h: "h = snd (uploadToScript b (items s) (scriptUrl (settings s)) (heap s))"
    using up by simp
  have kept: "arrays h a = arrays (heap s) a"
    using assms h by (simp add: uploadToScript_frame)
  have later: "a < next_ref h"
    using assms h uploadToScript_next [of "heap s" b "items s" "scriptUrl (settings s)"] by simp
  show ?thesis
    using False up kept later
    by (simp add: handleManualExport_def Let_def clipboard_fallback_frame)
qed



















lemma number_to_string_small: "number_to_string (1 / 10000000) = ''1e-7''"
  by code_simp

lemma toLowerCase_alphabet:
  "toLowerCase ''ABCDEFGHIJKLMNOPQRSTUVWXYZ az 09'' = ''abcdefghijklmnopqrstuvwxyz az 09''"
  by code_simp



lemma copyToClipboard_written:
  "writeText b (tsvContent (fst (getSortedExportData b (items s) (heap s)))) \<Longrightarrow>
   fst (copyToClipboard b s) \<and>
   clipboard (snd (copyToClipboard b s))
     = Some (tsvContent (fst (getSortedExportData b (items s) (heap s))))"
  by (simp add: copyToClipboard_def Let_def case_prod_beta)

lemma copyToClipboard_denied:
  "\<not> writeText b (tsvContent (fst (getSortedExportData b (items s) (heap s)))) \<Longrightarrow>
   \<not> fst (copyToClipboard b s) \<and> clipboard (snd (copyToClipboard b s)) = clipboard s"
  by (simp add: copyToClipboard_def Let_def case_prod_beta)






lemma rows_review_state:
  "fst (getSortedExportData online_browser (items review_state) (heap review_state))
     = [to_row beans, to_row rice]"
  by (simp add: getSortedExportData_eq review_state_def review_store_def by_description_def
      online_browser_def rice_def beans_def codepoint_compare_def toLowerCase_def
      lower_char_def Let_def)












text \<open>
  C4: when a request is sent (the URL is not empty), the upload reports success exactly
  when the text of the response contains \<^verbatim>\<open>Success\<close>: the answer
  \<^verbatim>\<open>Success: 0 rows\<close> is a success, the answer \<^verbatim>\<open>Error: locked\<close> a failure, and an
  exception of the call a failure.
\<close>

theorem webhook_success_criterion:
  fixes b :: browser and r :: nat and h :: store and url :: string
  defines "body \<equiv> request_body (map to_row (sorted_contents (by_description b) (arrays h r)))"
  assumes "url \<noteq> []"
  shows "(fetch b url body = Response_text t \<longrightarrow>
            (fst (uploadToScript b r url h) \<longleftrightarrow> (\<exists>before after. t = before @ ''Success'' @ after)))
    \<and> (fetch b url body = Response_text ''Success: 0 rows'' \<longrightarrow> fst (uploadToScript b r url h))
    \<and> (fetch b url body = Response_text ''Error: locked'' \<longrightarrow> \<not> fst (uploadToScript b r url h))
    \<and> (fetch b url body = Fetch_throws \<longrightarrow> \<not> fst (uploadToScript b r url h))"
proof -
  have answered: "fetch b url body = Response_text t \<longrightarrow>
      (fst (uploadToScript b r url h) \<longleftrightarrow> (\<exists>before after. t = before @ ''Success'' @ after))"
    using assms by (simp add: uploadToScript_result includes_str_iff)
  have ok: "fetch b url body = Response_text ''Success: 0 rows'' \<longrightarrow> fst (uploadToScript b r url h)"
    using assms by (simp add: uploadToScript_result)
  have locked: "fetch b url body = Response_text ''Error: locked'' \<longrightarrow>
      \<not> fst (uploadToScript b r url h)"
    using assms by (simp add: uploadToScript_result)
  have throws: "fetch b url body = Fetch_throws \<longrightarrow> \<not> fst (uploadToScript b r url h)"
    using assms by (simp add: uploadToScript_result)
  show ?thesis
    using answered ok locked throws by blast
qed

theorem webhook_success_criterion_witness:
  "scriptUrl (settings review_state) \<noteq> []
   \<and> fst (uploadToScript (answering ''Success: 0 rows'') 0 (scriptUrl (settings review_state))
        review_store)
   \<and> \<not> fst (uploadToScript (answering ''Error: locked'') 0 (scriptUrl (settings review_state))
        review_store)
   \<and> \<not> fst (uploadToScript offline_browser 0 (scriptUrl (settings review_state)) review_store)"
proof -
  have u: "scriptUrl (settings review_state) \<noteq> []"
    by (simp add: review_state_def)
  have ok: "fetch (answering ''Success: 0 rows'') url body = Response_text ''Success: 0 rows''"
    for url body
    by (simp add: answering_def)
  have locked: "fetch (answering ''Error: locked'') url body = Response_text ''Error: locked''"
    for url body
    by (simp add: answering_def)
  have throws: "fetch offline_browser url body = Fetch_throws" for url body
    by (simp add: offline_browser_def)
  have success: "fst (uploadToScript (answering ''Success: 0 rows'') 0
      (scriptUrl (settings review_state)) review_store)"
    using ok webhook_success_criterion [where b = "answering ''Success: 0 rows''" and r = 0
        and h = review_store and url = "scriptUrl (settings review_state)", OF u]
    by blast
  have failure: "\<not> fst (uploadToScript (answering ''Error: locked'') 0
      (scriptUrl (settings review_state)) review_store)"
    using locked webhook_success_criterion [where b = "answering ''Error: locked''" and r = 0
        and h = review_store and url = "scriptUrl (settings review_state)", OF u]
    by blast
  have exception: "\<not> fst (uploadToScript offline_browser 0
      (scriptUrl (settings review_state)) review_store)"
    using throws webhook_success_criterion [where b = offline_browser and r = 0
        and h = review_store and url = "scriptUrl (settings review_state)", OF u]
    by blast
  show ?thesis
    using u success failure exception by blast
qed

text \<open>
  C6: neither export sorts the array of the review. The clipboard export, the webhook
  upload and the whole manual export leave the reference held by the state and the contents
  of the array behind it as they were; the array that is sorted is a new one.
\<close>

theorem export_keeps_review_state:
  assumes "items s < next_ref (heap s)"
  shows "items (snd (copyToClipboard b s)) = items s
    \<and> arrays (heap (snd (copyToClipboard b s))) (items s) = arrays (heap s) (items s)
    \<and> arrays (snd (uploadToScript b (items s) url (heap s))) (items s) = arrays (heap s) (items s)
    \<and> items (handleManualExport b s) = items s
    \<and> arrays (heap (handleManualExport b s)) (items s) = arrays (heap s) (items s)
    \<and> fst (spread (items s) (heap s)) \<noteq> items s"
proof -
  have fresh: "fst (spread (items s) (heap s)) \<noteq> items s"
    using assms by (simp add: spread_def allocate_def)
  show ?thesis
    using assms fresh
    by (simp add: copyToClipboard_items copyToClipboard_heap getSortedExportData_frame
        uploadToScript_frame handleManualExport_items handleManualExport_frame)
qed

theorem export_keeps_review_state_witness:
  "items review_state < next_ref (heap review_state)
   \<and> arrays (heap (snd (copyToClipboard online_browser review_state))) (items review_state)
       = [rice, beans]
   \<and> arrays (snd (uploadToScript online_browser (items review_state)
         (scriptUrl (settings review_state)) (heap review_state))) (items review_state)
       = [rice, beans]
   \<and> arrays (heap (handleManualExport online_browser review_state)) (items review_state)
       = [rice, beans]
   \<and> fst (getSortedExportData online_browser (items review_state) (heap review_state))
       = [to_row beans, to_row rice]"
proof -
  have a: "items review_state < next_ref (heap review_state)"
    by (simp add: review_state_def review_store_def)
  have c: "arrays (heap review_state) (items review_state) = [rice, beans]"
    by (simp add: review_state_def review_store_def)
  show ?thesis
    using a c rows_review_state
      export_keeps_review_state [OF a, of online_browser "scriptUrl (settings review_state)"]
    by simp
qed

text \<open>
  C10: the text of no rows is the empty string and the request body of no rows is the
  document \<^verbatim>\<open>{"items": []}\<close>. With an empty collection the clipboard export writes the
  empty string, and the webhook upload sends that body and reports what the answer says.
\<close>

theorem empty_export:
  "tsvContent [] = []
   \<and> request_body [] = JObject [(''items'', JArray [])]
   \<and> (arrays (heap s) (items s) = [] \<longrightarrow>
        fst (getSortedExportData b (items s) (heap s)) = []
        \<and> (writeText b [] \<longrightarrow>
             fst (copyToClipboard b s) \<and> clipboard (snd (copyToClipboard b s)) = Some [])
        \<and> (url \<noteq> [] \<longrightarrow>
             fst (uploadToScript b (items s) url (heap s))
               = (case fetch b url (JObject [(''items'', JArray [])]) of
                    Fetch_throws \<Rightarrow> False
                  | Response_text t \<Rightarrow> includes_str t ''Success'')))"
proof -
  have no_lines: "tsvContent [] = []"
    by (simp add: tsvContent_def)
  have body: "request_body [] = JObject [(''items'', JArray [])]"
    by (simp add: request_body_def)
  have empty: "arrays (heap s) (items s) = [] \<longrightarrow>
        fst (getSortedExportData b (items s) (heap s)) = []
        \<and> (writeText b [] \<longrightarrow>
             fst (copyToClipboard b s) \<and> clipboard (snd (copyToClipboard b s)) = Some [])
        \<and> (url \<noteq> [] \<longrightarrow>
             fst (uploadToScript b (items s) url (heap s))
               = (case fetch b url (JObject [(''items'', JArray [])]) of
                    Fetch_throws \<Rightarrow> False
                  | Response_text t \<Rightarrow> includes_str t ''Success''))"
  proof
    assume e: "arrays (heap s) (items s) = []"
    have rows: "fst (getSortedExportData b (items s) (heap s)) = []"
      by (simp add: getSortedExportData_eq e)
    have clip: "writeText b [] \<longrightarrow>
        fst (copyToClipboard b s) \<and> clipboard (snd (copyToClipboard b s)) = Some []"
      using copyToClipboard_written [of b s] by (simp add: rows no_lines)
    have up: "url \<noteq> [] \<longrightarrow>
        fst (uploadToScript b (items s) url (heap s))
          = (case fetch b url (JObject [(''items'', JArray [])]) of
               Fetch_throws \<Rightarrow> False
             | Response_text t \<Rightarrow> includes_str t ''Success'')"
      by (simp add: uploadToScript_result e body)
    show "fst (getSortedExportData b (items s) (heap s)) = []
        \<and> (writeText b [] \<longrightarrow>
             fst (copyToClipboard b s) \<and> clipboard (snd (copyToClipboard b s)) = Some [])
        \<and> (url \<noteq> [] \<longrightarrow>
             fst (uploadToScript b (items s) url (heap s))
               = (case fetch b url (JObject [(''items'', JArray [])]) of
                    Fetch_throws \<Rightarrow> False
                  | Response_text t \<Rightarrow> includes_str t ''Success''))"
      using rows clip up by blast
  qed
  show ?thesis
    using no_lines body empty by blast
qed

theorem empty_export_witness:
  "arrays (heap empty_state) (items empty_state) = []
   \<and> writeText online_browser []
   \<and> scriptUrl (settings empty_state) \<noteq> []
   \<and> fst (copyToClipboard online_browser empty_state)
   \<and> clipboard (snd (copyToClipboard online_browser empty_state)) = Some []
   \<and> fst (uploadToScript online_browser (items empty_state) (scriptUrl (settings empty_state))
        (heap empty_state))"
proof -
  have e: "arrays (heap empty_state) (items empty_state) = []"
    by (simp add: empty_state_def)
  have w: "writeText online_browser []"
    by (simp add: online_browser_def)
  have u: "scriptUrl (settings empty_state) \<noteq> []"
    by (simp add: empty_state_def review_state_def)
  have f: "fetch online_browser (scriptUrl (settings empty_state))
      (JObject [(''items'', JArray [])]) = Response_text ''Success''"
    by (simp add: online_browser_def)
  show ?thesis
    using e w u f
      empty_export [of empty_state online_browser "scriptUrl (settings empty_state)"]
    by simp
qed

section \<open>Properties of the response handling and of the history\<close>

lemma map_items_Some:
  "map_items v ids k (map Some rows)
     = Inr (map (\<lambda>(j, item). map_item v (ids j) item) (enumerate k rows))"
  by (induction rows arbitrary: k) simp_all

lemma map_items_None: "None \<in> set entries \<Longrightarrow> map_items v ids k entries = Inl TypeError"
proof (induction entries arbitrary: k)
  case Nil
  then show ?case by simp
next
  case (Cons entry rest)
  show ?case
  proof (cases entry)
    case None
    then show ?thesis by simp
  next
    case (Some item)
    with Cons.prems have "None \<in> set rest" by simp
    then have "map_items v ids (Suc k) rest = Inl TypeError" by (rule Cons.IH)
    with Some show ?thesis by simp
  qed
qed

lemma extractInvoiceData_error:
  "extractInvoiceData ids response = Inl e \<Longrightarrow> e = extraction_failed"
  by (simp add: extractInvoiceData_def split: sum.splits)

lemma trim_closed_form:
  "trim name =
     rev (dropWhile (\<lambda>c. (of_char c :: nat) \<in> {9, 10, 11, 12, 13, 32, 160})
       (rev (dropWhile (\<lambda>c. (of_char c :: nat) \<in> {9, 10, 11, 12, 13, 32, 160}) name)))"
proof -
  have "is_space = (\<lambda>c. (of_char c :: nat) \<in> {9, 10, 11, 12, 13, 32, 160})"
    by (rule ext) (auto simp: is_space_def)
  then show ?thesis
    by (simp add: trim_def)
qed

text \<open>
  C8, as the code has it: a bare list and an object with an \<^verbatim>\<open>items\<close> list are both
  mapped row by row (the object with its vendor name, white space removed at both ends,
  the list with an empty one). The empty list is returned for a response without text, for
  an object whose \<^verbatim>\<open>items\<close> is missing or falsy, and for a parsed number, string or
  boolean. Every exception inside the \<^verbatim>\<open>try\<close> block gives the same fixed error and no
  items: a failed call, a text that is not JSON, a parsed \<^verbatim>\<open>null\<close>, an
  \<^verbatim>\<open>items\<close> that is truthy but no list, a \<^verbatim>\<open>vendorName\<close> that is truthy but no
  string, and a \<^verbatim>\<open>null\<close> element anywhere in the list. Every error the function
  returns is that one.
\<close>

theorem extraction_result_handling:
  "extractInvoiceData ids (Text_json (Root_array (map Some rows)))
     = Inr (map (\<lambda>(k, item). map_item [] (ids k) item) (enumerate 0 rows))
   \<and> extractInvoiceData ids (Text_json (Root_object (Has name) (Has (map Some rows))))
     = Inr (map (\<lambda>(k, item).
          map_item
            (rev (dropWhile (\<lambda>c. (of_char c :: nat) \<in> {9, 10, 11, 12, 13, 32, 160})
              (rev (dropWhile (\<lambda>c. (of_char c :: nat) \<in> {9, 10, 11, 12, 13, 32, 160}) name))))
            (ids k) item) (enumerate 0 rows))
   \<and> extractInvoiceData ids (Text_json (Root_object Missing (Has (map Some rows))))
     = Inr (map (\<lambda>(k, item). map_item [] (ids k) item) (enumerate 0 rows))
   \<and> extractInvoiceData ids No_text = Inr []
   \<and> extractInvoiceData ids (Text_json (Root_object (Has name) Missing)) = Inr []
   \<and> extractInvoiceData ids (Text_json (Root_object Missing Missing)) = Inr []
   \<and> extractInvoiceData ids (Text_json Root_primitive) = Inr []
   \<and> extractInvoiceData ids Call_rejected = Inl extraction_failed
   \<and> extractInvoiceData ids Text_not_json = Inl extraction_failed
   \<and> extractInvoiceData ids (Text_json Root_null) = Inl extraction_failed
   \<and> extractInvoiceData ids (Text_json (Root_object vendor_property Other_truthy))
       = Inl extraction_failed
   \<and> extractInvoiceData ids (Text_json (Root_object Other_truthy items_property))
       = Inl extraction_failed
   \<and> (None \<in> set entries \<longrightarrow>
        extractInvoiceData ids (Text_json (Root_array entries)) = Inl extraction_failed
        \<and> extractInvoiceData ids (Text_json (Root_object (Has name) (Has entries)))
            = Inl extraction_failed
        \<and> extractInvoiceData ids (Text_json (Root_object Missing (Has entries)))
            = Inl extraction_failed)
   \<and> (\<forall>e. extractInvoiceData ids response = Inl e \<longrightarrow>
        e = Error ''Failed to extract data from the invoice. Please try again.'')"
proof -
  have lists: "extractInvoiceData ids (Text_json (Root_array (map Some rows)))
        = Inr (map (\<lambda>(k, item). map_item [] (ids k) item) (enumerate 0 rows))
      \<and> extractInvoiceData ids (Text_json (Root_object (Has name) (Has (map Some rows))))
        = Inr (map (\<lambda>(k, item). map_item (trim name) (ids k) item) (enumerate 0 rows))
      \<and> extractInvoiceData ids (Text_json (Root_object Missing (Has (map Some rows))))
        = Inr (map (\<lambda>(k, item). map_item [] (ids k) item) (enumerate 0 rows))"
    by (simp add: extractInvoiceData_def try_block_def map_items_Some)
  have empties: "extractInvoiceData ids No_text = Inr []
      \<and> extractInvoiceData ids (Text_json (Root_object (Has name) Missing)) = Inr []
      \<and> extractInvoiceData ids (Text_json (Root_object Missing Missing)) = Inr []
      \<and> extractInvoiceData ids (Text_json Root_primitive) = Inr []"
    by (simp add: extractInvoiceData_def try_block_def)
  have failures: "extractInvoiceData ids Call_rejected = Inl extraction_failed
      \<and> extractInvoiceData ids Text_not_json = Inl extraction_failed
      \<and> extractInvoiceData ids (Text_json Root_null) = Inl extraction_failed"
    by (simp add: extractInvoiceData_def try_block_def)
  have no_list: "extractInvoiceData ids (Text_json (Root_object vendor_property Other_truthy))
       = Inl extraction_failed"
    by (cases vendor_property) (simp_all add: extractInvoiceData_def try_block_def)
  have no_name: "extractInvoiceData ids (Text_json (Root_object Other_truthy items_property))
       = Inl extraction_failed"
    by (simp add: extractInvoiceData_def try_block_def)
  have partial: "None \<in> set entries \<longrightarrow>
        extractInvoiceData ids (Text_json (Root_array entries)) = Inl extraction_failed
        \<and> extractInvoiceData ids (Text_json (Root_object (Has name) (Has entries)))
            = Inl extraction_failed
        \<and> extractInvoiceData ids (Text_json (Root_object Missing (Has entries)))
            = Inl extraction_failed"
    by (simp add: extractInvoiceData_def try_block_def map_items_None)
  have opaque: "\<forall>e. extractInvoiceData ids response = Inl e \<longrightarrow>
      e = Error ''Failed to extract data from the invoice. Please try again.''"
    using extractInvoiceData_error [of ids response] by (simp add: extraction_failed_def)
  show ?thesis
    using lists empties failures no_list no_name partial opaque
    by (simp only: trim_closed_form)
qed

theorem extraction_result_handling_witness:
  "None \<in> set [Some rice_row, None]
   \<and> extractInvoiceData sample_ids (Text_json (Root_array [Some rice_row, None]))
       = Inl (Error ''Failed to extract data from the invoice. Please try again.'')
   \<and> extractInvoiceData sample_ids (Text_json (Root_array [Some rice_row, None]))
       = extractInvoiceData sample_ids Call_rejected
   \<and> extractInvoiceData sample_ids (Text_json (Root_array (map Some [rice_row])))
       = Inr [map_item [] ''item-0'' rice_row]
   \<and> extractInvoiceData sample_ids
        (Text_json (Root_object (Has '' Asian Vegetables '') (Has (map Some [rice_row]))))
       = Inr [map_item ''Asian Vegetables'' ''item-0'' rice_row]"
proof -
  note inst = extraction_result_handling [of sample_ids "[rice_row]" "'' Asian Vegetables ''"
      Missing Missing "[Some rice_row, None]" "Text_json (Root_array [Some rice_row, None])"]
  have mem: "None \<in> set [Some rice_row, None]" by simp
  have id0: "sample_ids 0 = ''item-0''" by code_simp
  have name: "rev (dropWhile (\<lambda>c. (of_char c :: nat) \<in> {9, 10, 11, 12, 13, 32, 160})
      (rev (dropWhile (\<lambda>c. (of_char c :: nat) \<in> {9, 10, 11, 12, 13, 32, 160})
        '' Asian Vegetables ''))) = ''Asian Vegetables''"
    by simp
  have "extractInvoiceData sample_ids (Text_json (Root_array [Some rice_row, None]))
       = Inl extraction_failed"
    using inst mem by blast
  then have failed: "extractInvoiceData sample_ids (Text_json (Root_array [Some rice_row, None]))
       = Inl (Error ''Failed to extract data from the invoice. Please try again.'')"
    by (simp add: extraction_failed_def)
  have "extractInvoiceData sample_ids Call_rejected = Inl extraction_failed"
    using inst by blast
  then have rejected: "extractInvoiceData sample_ids Call_rejected
       = Inl (Error ''Failed to extract data from the invoice. Please try again.'')"
    by (simp add: extraction_failed_def)
  have bare: "extractInvoiceData sample_ids (Text_json (Root_array (map Some [rice_row])))
       = Inr [map_item [] ''item-0'' rice_row]"
    using inst [THEN conjunct1] by (simp add: enumerate_simps id0)
  have "extractInvoiceData sample_ids
        (Text_json (Root_object (Has '' Asian Vegetables '') (Has (map Some [rice_row]))))
       = Inr (map (\<lambda>(k, item).
          map_item
            (rev (dropWhile (\<lambda>c. (of_char c :: nat) \<in> {9, 10, 11, 12, 13, 32, 160})
              (rev (dropWhile (\<lambda>c. (of_char c :: nat) \<in> {9, 10, 11, 12, 13, 32, 160})
                '' Asian Vegetables ''))))
            (sample_ids k) item) (enumerate 0 [rice_row]))"
    using inst [THEN conjunct2, THEN conjunct1] .
  then have object: "extractInvoiceData sample_ids
        (Text_json (Root_object (Has '' Asian Vegetables '') (Has (map Some [rice_row]))))
       = Inr [map_item ''Asian Vegetables'' ''item-0'' rice_row]"
    by (simp only: name) (simp add: enumerate_simps id0)
  show ?thesis
    using mem failed rejected bare object by simp
qed

text \<open>
  The claim as stated fails for a response that parses and holds no list of items. The
  text \<^verbatim>\<open>null\<close> is JSON, and reading \<^verbatim>\<open>items\<close> of \<^verbatim>\<open>null\<close> throws; the text
  \<^verbatim>\<open>{"items": "abc"}\<close> is JSON, and a string has no \<^verbatim>\<open>map\<close>. Neither exception
  comes from the call or from \<^verbatim>\<open>JSON.parse\<close>, and in both cases the function raises
  the error instead of returning the empty list.
\<close>

theorem no_items_list_counterexample:
  "extractInvoiceData sample_ids (Text_json Root_null)
     = Inl (Error ''Failed to extract data from the invoice. Please try again.'')
   \<and> extractInvoiceData sample_ids (Text_json Root_null) \<noteq> Inr []
   \<and> extractInvoiceData sample_ids (Text_json (Root_object Missing Other_truthy))
     = Inl (Error ''Failed to extract data from the invoice. Please try again.'')
   \<and> extractInvoiceData sample_ids (Text_json (Root_object Missing Other_truthy)) \<noteq> Inr []"
  by (simp add: extractInvoiceData_def try_block_def extraction_failed_def)

lemma auto_export_history: "history (auto_export b r m s) = history s"
  by (simp add: auto_export_def Let_def case_prod_beta)

lemma set_scanned_items_history: "history (set_scanned_items r s) = history s"
  by (simp add: set_scanned_items_def Let_def case_prod_beta)

lemma handleFileUpload_history: "history (handleFileUpload b event s) = history s"
proof (cases event)
  case No_file
  then show ?thesis by (simp add: handleFileUpload_def)
next
  case Read_fails
  then show ?thesis by (simp add: handleFileUpload_def)
next
  case (Extraction outcome)
  then show ?thesis
    by (cases outcome)
      (simp_all add: handleFileUpload_def Let_def case_prod_beta auto_export_history
        set_scanned_items_history)
qed

text \<open>
  C7, as the code has it: a manual export prepends exactly one record to the history,
  before either delivery path is tried and whatever the webhook and the clipboard answer;
  the record has status \<^verbatim>\<open>Uploaded\<close>, its items are the array of the review, whose
  contents after the export are still those of the collection, and its
  \<^verbatim>\<open>totalItems\<close> is the length of the collection. The other handlers, among them the
  automatic export that follows a scan, leave the history as it is, so the history only
  grows at its front.
\<close>

theorem manual_export_history:
  assumes "items s < next_ref (heap s)"
  shows "history (handleManualExport b s) =
       \<lparr>record_id = nat_to_string (Date_now b), date = Date_toISOString b,
         record_items = items s, totalItems = length (arrays (heap s) (items s)),
         status = Uploaded\<rparr> # history s
    \<and> arrays (heap (handleManualExport b s))
         (record_items (hd (history (handleManualExport b s))))
       = arrays (heap s) (items s)
    \<and> history (handleFileUpload b event s) = history s
    \<and> history (snd (copyToClipboard b s)) = history s"
  using assms
  by (simp add: handleManualExport_history handleManualExport_frame handleFileUpload_history
      copyToClipboard_history)

theorem manual_export_history_witness:
  "items review_state < next_ref (heap review_state)
   \<and> map status (history (handleManualExport online_browser review_state)) = [Uploaded]
   \<and> map totalItems (history (handleManualExport online_browser review_state)) = [2]
   \<and> toastMessage (handleManualExport online_browser review_state) = Some Sent_to_sheet
   \<and> map status (history (handleManualExport offline_browser review_state)) = [Uploaded]
   \<and> toastMessage (handleManualExport offline_browser review_state) = Some Clipboard_denied
   \<and> arrays (heap (handleManualExport offline_browser review_state))
        (record_items (hd (history (handleManualExport offline_browser review_state))))
       = [rice, beans]"
proof -
  have a: "items review_state < next_ref (heap review_state)"
    by (simp add: review_state_def review_store_def)
  have c: "arrays (heap review_state) (items review_state) = [rice, beans]"
    by (simp add: review_state_def review_store_def)
  have e: "history review_state = []"
    by (simp add: review_state_def)
  have sent: "toastMessage (handleManualExport online_browser review_state) = Some Sent_to_sheet"
    by (simp add: handleManualExport_def uploadToScript_def spread_def allocate_def
        sort_in_place_def online_browser_def review_state_def Let_def)
  have denied: "toastMessage (handleManualExport offline_browser review_state)
      = Some Clipboard_denied"
    by (simp add: handleManualExport_def uploadToScript_def spread_def allocate_def
        sort_in_place_def offline_browser_def review_state_def Let_def clipboard_fallback_def
        copyToClipboard_def getSortedExportData_def)
  note online = manual_export_history [OF a, of online_browser No_file]
  note offline = manual_export_history [OF a, of offline_browser No_file]
  have "history (handleManualExport online_browser review_state) =
       \<lparr>record_id = nat_to_string (Date_now online_browser),
         date = Date_toISOString online_browser, record_items = items review_state,
         totalItems = length (arrays (heap review_state) (items review_state)),
         status = Uploaded\<rparr> # history review_state"
    using online by blast
  then have first: "map status (history (handleManualExport online_browser review_state))
        = [Uploaded]
      \<and> map totalItems (history (handleManualExport online_browser review_state)) = [2]"
    by (simp add: c e)
  have "history (handleManualExport offline_browser review_state) =
       \<lparr>record_id = nat_to_string (Date_now offline_browser),
         date = Date_toISOString offline_browser, record_items = items review_state,
         totalItems = length (arrays (heap review_state) (items review_state)),
         status = Uploaded\<rparr> # history review_state"
    using offline by blast
  then have second: "map status (history (handleManualExport offline_browser review_state))
        = [Uploaded]"
    by (simp add: e)
  have "arrays (heap (handleManualExport offline_browser review_state))
        (record_items (hd (history (handleManualExport offline_browser review_state))))
       = arrays (heap review_state) (items review_state)"
    using offline by blast
  then have snapshot: "arrays (heap (handleManualExport offline_browser review_state))
        (record_items (hd (history (handleManualExport offline_browser review_state))))
       = [rice, beans]"
    by (simp only: c)
  show ?thesis
    using a first sent second denied snapshot by blast
qed

text \<open>
  The claim as stated fails for the automatic export: after a scan with automatic export
  switched on and a webhook that answers \<^verbatim>\<open>Success\<close>, the scanned items have been
  uploaded and the history is still empty.
\<close>

theorem auto_export_counterexample:
  "toastMessage (handleFileUpload online_browser (Extraction (Inr [rice])) review_state)
     = Some Auto_export_successful
   \<and> history (handleFileUpload online_browser (Extraction (Inr [rice])) review_state) = []"
  by (simp add: handleFileUpload_def auto_export_def set_scanned_items_def uploadToScript_def
      spread_def allocate_def sort_in_place_def online_browser_def review_state_def
      review_store_def Let_def)

end
